theory Spec2Isabelle
  imports Complex_Main
begin

section \<open>Data model\<close>

text \<open>
  The loan and KYC core of the backend: \<open>loanService\<close>, \<open>kycService\<close> and the parts of
  \<open>loanController\<close> and \<open>kycController\<close> that decide who may see or change a record.
  The relational store behind the ORM is a record of three tables, each a list of rows in
  insertion order. Every operation takes the store and returns the new one. What the
  process reads from outside (the clock, generated identifiers, whether the audit table
  accepts a write) is the \<open>env\<close> argument.

  Roles and loan types are the enumerations of the validation schemas. Statuses, document
  types and audit tags are kept as the strings the JavaScript compares. A nullable column
  is an \<open>option\<close>.
\<close>

datatype role = CUSTOMER | MERCHANT | BANKER

datatype loan_type = PERSONAL | BUSINESS | VEHICLE | EQUIPMENT

text \<open>\<open>req.user\<close>, the decoded credential attached by \<open>authMiddleware.authenticate\<close>.\<close>

record user =
  userId :: string
  role :: role

record loan =
  l_id :: string
  l_type :: loan_type
  l_amount :: rat
  l_status :: string
  l_applicantId :: string
  l_merchantId :: "string option"
  l_bankerId :: "string option"
  l_createdAt :: nat
  l_updatedAt :: nat

record kyc_document =
  d_id :: string
  d_type :: string
  d_url :: "string option"
  d_status :: string
  d_userId :: string
  d_verifiedBy :: "string option"
  d_createdAt :: nat

text \<open>An audit row; its generated id plays no part in any operation and is left out.\<close>

record audit_log =
  a_loanId :: "string option"
  a_action :: string
  a_actorId :: "string option"
  a_createdAt :: nat

record db =
  loans :: "loan list"
  kycDocuments :: "kyc_document list"
  auditLogs :: "audit_log list"

record env =
  clock :: nat
  nextId :: string
  nextUuid :: string
  auditLogCreateOk :: bool

text \<open>
  A thrown \<open>Error\<close> with its \<open>status\<close> and message, or the ORM's rejection of an
  \<open>update\<close> whose \<open>where\<close> matches no row (it carries no \<open>status\<close>).
\<close>

datatype error = HttpError nat string | RecordNotFound

text \<open>JavaScript truthiness of a nullable string: \<open>null\<close>, \<open>undefined\<close> and \<open>''\<close> are falsy.\<close>

fun truthy :: "string option \<Rightarrow> bool" where
  "truthy None = False"
| "truthy (Some s) = (s \<noteq> [])"

section \<open>KYC requirements and completion\<close>

record required_doc =
  r_type :: string
  r_displayName :: string
  r_isRequired :: bool
  r_status :: string

definition getDocTypeName :: "string \<Rightarrow> string" where
  "getDocTypeName t =
     (if t = ''ID_PROOF'' then ''Government ID (Aadhaar/Passport)''
      else if t = ''ADDRESS_PROOF'' then ''Address Proof (Utility Bill/Bank Statement)''
      else if t = ''PAN_CARD'' then ''PAN Card''
      else if t = ''BANK_STATEMENT'' then ''Bank Statement (Last 6 months)''
      else t)"

fun baseRequirements :: "role \<Rightarrow> string list" where
  "baseRequirements CUSTOMER = [''ID_PROOF'', ''ADDRESS_PROOF'', ''PAN_CARD'']"
| "baseRequirements MERCHANT = [''ID_PROOF'', ''ADDRESS_PROOF'', ''PAN_CARD'', ''BANK_STATEMENT'']"
| "baseRequirements BANKER = []"

text \<open>The \<open>loanSpecific\<close> table; \<open>PERSONAL\<close> has no entry and takes the \<open>|| []\<close> default.\<close>

fun loanSpecific :: "loan_type \<Rightarrow> string list" where
  "loanSpecific BUSINESS = [''BANK_STATEMENT'']"
| "loanSpecific VEHICLE = [''ADDRESS_PROOF'']"
| "loanSpecific EQUIPMENT = [''BANK_STATEMENT'']"
| "loanSpecific PERSONAL = []"

text \<open>
  \<open>[...new Set(xs)]\<close>: the elements of \<open>xs\<close> in order of first occurrence
  (\<open>remdups\<close> keeps the last occurrence, hence the two reversals).
\<close>

definition spread_Set :: "'a list \<Rightarrow> 'a list" where
  "spread_Set xs = rev (remdups (rev xs))"

text \<open>
  The local \<open>requirements\<close> of \<open>getRequiredDocuments\<close>: the base list of the role, and
  with a loan type the base list followed by the loan-specific types, without repetitions.
\<close>

definition required_types :: "role \<Rightarrow> loan_type option \<Rightarrow> string list" where
  "required_types userRole loanType =
     (case loanType of
        None \<Rightarrow> baseRequirements userRole
      | Some t \<Rightarrow> spread_Set (baseRequirements userRole @ loanSpecific t))"

definition getRequiredDocuments :: "role \<Rightarrow> loan_type option \<Rightarrow> required_doc list" where
  "getRequiredDocuments userRole loanType =
     map (\<lambda>t. \<lparr>r_type = t, r_displayName = getDocTypeName t,
               r_isRequired = True, r_status = ''NOT_STARTED''\<rparr>)
         (required_types userRole loanType)"










section \<open>Audit trail\<close>

text \<open>
  \<open>LoanService.createAuditLog\<close>: the \<open>try\<close> block creates the row, the \<open>catch\<close> block
  logs and does not rethrow, so a rejected write leaves the store as it was and the
  caller continues. \<open>details\<close> only reaches the logger.
\<close>

definition createAuditLog :: "db \<Rightarrow> env \<Rightarrow> string \<Rightarrow> string \<Rightarrow> string \<Rightarrow> string \<Rightarrow> db" where
  "createAuditLog s e loanId action actorId details =
     (if auditLogCreateOk e
      then s\<lparr>auditLogs := auditLogs s @
             [\<lparr>a_loanId = Some loanId, a_action = action, a_actorId = Some actorId,
               a_createdAt = clock e\<rparr>]\<rparr>
      else s)"

text \<open>
  \<open>KYCService.createKYCAuditLog\<close>: the same pattern; the stored tag is the caller's
  \<open>action\<close> behind the prefix \<open>KYC_\<close>, \<open>loanId\<close> is null, the actor may be null.
\<close>

definition createKYCAuditLog :: "db \<Rightarrow> env \<Rightarrow> string \<Rightarrow> string \<Rightarrow> string option \<Rightarrow> string \<Rightarrow> db" where
  "createKYCAuditLog s e kycDocId action actorId details =
     (if auditLogCreateOk e
      then s\<lparr>auditLogs := auditLogs s @
             [\<lparr>a_loanId = None, a_action = ''KYC_'' @ action, a_actorId = actorId,
               a_createdAt = clock e\<rparr>]\<rparr>
      else s)"

section \<open>Loan service and controller\<close>

text \<open>The body of \<open>POST /loan/apply\<close> after \<open>validateLoan\<close>: \<open>merchantId\<close> is absent, null or a UUID.\<close>

record loan_apply =
  la_type :: loan_type
  la_amount :: rat
  la_merchantId :: "string option"
  la_purpose :: "string option"

definition createLoan :: "db \<Rightarrow> env \<Rightarrow> loan_apply \<Rightarrow> string \<Rightarrow> loan \<times> db" where
  "createLoan s e loanData uid =
     (let loan = \<lparr>l_id = nextId e,
                  l_type = la_type loanData,
                  l_amount = la_amount loanData,
                  l_status = ''PENDING'',
                  l_applicantId = uid,
                  l_merchantId = (if truthy (la_merchantId loanData) then la_merchantId loanData else None),
                  l_bankerId = None,
                  l_createdAt = clock e,
                  l_updatedAt = clock e\<rparr>;
          s1 = s\<lparr>loans := loans s @ [loan]\<rparr>;
          s2 = createAuditLog s1 e (l_id loan) ''LOAN_CREATED'' uid ''Loan application submitted''
      in (loan, s2))"

record apply_response =
  ar_loan :: loan
  ar_applicationType :: string

text \<open>\<open>LoanController.apply\<close> (\<open>apply\<close> is a reserved word here, hence the longer name).\<close>

definition LoanController_apply :: "db \<Rightarrow> env \<Rightarrow> user \<Rightarrow> loan_apply \<Rightarrow> error + (apply_response \<times> db)" where
  "LoanController_apply s e u loanData =
     (if role u \<notin> set [CUSTOMER, MERCHANT]
      then Inl (HttpError 403 ''Only customers and merchants can apply for loans'')
      else
        let finalMerchantId =
              (if role u = MERCHANT
               then (if truthy (la_merchantId loanData) then Some (userId u) else None)
               else None);
            (loan, s') = createLoan s e (loanData\<lparr>la_merchantId := finalMerchantId\<rparr>) (userId u)
        in Inr (\<lparr>ar_loan = loan,
                 ar_applicationType =
                   (if role u = MERCHANT \<and> \<not> truthy finalMerchantId then ''merchant_self''
                    else if role u = MERCHANT \<and> truthy finalMerchantId then ''merchant_proxy''
                    else ''customer_direct'')\<rparr>, s'))"

text \<open>
  The row returned by \<open>getLoanById\<close> with its \<open>include\<close>d five newest audit rows
  (the joined applicant and merchant profiles are not part of this model).
\<close>

record loan_detail =
  ld_loan :: loan
  ld_auditLogs :: "audit_log list"

definition getLoanById :: "db \<Rightarrow> string \<Rightarrow> string \<Rightarrow> error + loan_detail" where
  "getLoanById s loanId uid =
     (case find (\<lambda>l. l_id l = loanId) (loans s) of
        None \<Rightarrow> Inl (HttpError 404 ''Loan not found'')
      | Some loan \<Rightarrow>
          let canAccess = (l_applicantId loan = uid \<or>
                           l_merchantId loan = Some uid \<or>
                           (uid \<noteq> [] \<and> l_bankerId loan = Some uid))
          in if \<not> canAccess
             then Inl (HttpError 403 ''Unauthorized access to loan'')
             else Inr \<lparr>ld_loan = loan,
                       ld_auditLogs =
                         take 5 (sort_key (\<lambda>a. - int (a_createdAt a))
                           (filter (\<lambda>a. a_loanId a = Some (l_id loan)) (auditLogs s)))\<rparr>)"

text \<open>
  \<open>LoanController.getStatus\<close>: the outcome is the service's, called with the requester's
  id only; the requester's role shapes the response body and nothing else.
\<close>

definition LoanController_getStatus :: "db \<Rightarrow> user \<Rightarrow> string \<Rightarrow> error + loan_detail" where
  "LoanController_getStatus s u loanId = getLoanById s loanId (userId u)"

text \<open>
  The \<open>where\<close> object built by \<open>getUserLoans\<close>. Its keys are conjoined by the ORM; a key
  assigned twice holds the last value. \<open>w_OR\<close> with \<open>Some u\<close> is
  \<open>OR: [{applicantId: u}, {merchantId: u}]\<close>.
\<close>

record loan_where =
  w_applicantId :: "string option"
  w_OR :: "string option"
  w_status :: "string option"
  w_type :: "loan_type option"
  w_amount_gte :: "rat option"

definition where_empty :: loan_where where
  "where_empty = \<lparr>w_applicantId = None, w_OR = None, w_status = None, w_type = None,
                   w_amount_gte = None\<rparr>"

definition where_matches :: "loan_where \<Rightarrow> loan \<Rightarrow> bool" where
  "where_matches w l \<longleftrightarrow>
     (case w_applicantId w of None \<Rightarrow> True | Some u \<Rightarrow> l_applicantId l = u) \<and>
     (case w_OR w of None \<Rightarrow> True | Some u \<Rightarrow> l_applicantId l = u \<or> l_merchantId l = Some u) \<and>
     (case w_status w of None \<Rightarrow> True | Some st \<Rightarrow> l_status l = st) \<and>
     (case w_type w of None \<Rightarrow> True | Some t \<Rightarrow> l_type l = t) \<and>
     (case w_amount_gte w of None \<Rightarrow> True | Some m \<Rightarrow> m \<le> l_amount l)"

text \<open>
  The ORM's \<open>take\<close>: a non-negative \<open>n\<close> keeps the first \<open>n\<close> rows of the ordered
  result, a negative \<open>n\<close> keeps the last \<open>-n\<close> rows of it, in the same order.
\<close>

definition prisma_take :: "int \<Rightarrow> 'a list \<Rightarrow> 'a list" where
  "prisma_take n xs = (if 0 \<le> n then take (nat n) xs else drop (length xs - nat (- n)) xs)"

text \<open>
  \<open>findMany\<close> with \<open>orderBy: {createdAt: 'desc'}\<close> and \<open>take: n\<close>. The sort is stable, so
  rows of equal \<open>createdAt\<close> stay in insertion order.
\<close>

definition findMany_loans :: "db \<Rightarrow> loan_where \<Rightarrow> int \<Rightarrow> loan list" where
  "findMany_loans s w n =
     prisma_take n (sort_key (\<lambda>l. - int (l_createdAt l)) (filter (where_matches w) (loans s)))"

text \<open>
  The \<open>filters\<close> argument. A field is \<open>None\<close> when undefined; an empty string and zero are
  the falsy values a caller can pass. \<open>f_limit\<close> is the integer \<open>parseInt\<close> returned for the
  query parameter, of either sign, and \<open>None\<close> for undefined or NaN.
\<close>

record loan_filters =
  f_status :: "string option"
  f_type :: "loan_type option"
  f_minAmount :: "rat option"
  f_limit :: "int option"

text \<open>
  \<open>getUserLoans\<close>: the \<open>switch\<close> on the role sets the scope, then each truthy filter is
  assigned to its key of the same object. The \<open>default\<close> branch of the \<open>switch\<close> is for a
  role outside the three and has no counterpart here.
\<close>

definition getUserLoans :: "db \<Rightarrow> string \<Rightarrow> role \<Rightarrow> loan_filters \<Rightarrow> loan list" where
  "getUserLoans s uid r filters =
     (let w0 = (case r of
                  CUSTOMER \<Rightarrow> where_empty\<lparr>w_applicantId := Some uid\<rparr>
                | MERCHANT \<Rightarrow> where_empty\<lparr>w_OR := Some uid\<rparr>
                | BANKER \<Rightarrow> where_empty\<lparr>w_status := Some ''PENDING''\<rparr>);
          w1 = (if truthy (f_status filters) then w0\<lparr>w_status := f_status filters\<rparr> else w0);
          w2 = (if f_type filters \<noteq> None then w1\<lparr>w_type := f_type filters\<rparr> else w1);
          w3 = (if f_minAmount filters \<noteq> None \<and> f_minAmount filters \<noteq> Some 0
                then w2\<lparr>w_amount_gte := f_minAmount filters\<rparr> else w2)
      in findMany_loans s w3
           (case f_limit filters of None \<Rightarrow> 20 | Some n \<Rightarrow> if n = 0 then 20 else n))"

text \<open>
  \<open>updateLoanStatus\<close>: the decision is validated, the row with the given id is updated
  without reading its current status, then the audit entry is written.
\<close>

definition updateLoanStatus ::
    "db \<Rightarrow> env \<Rightarrow> string \<Rightarrow> string \<Rightarrow> string \<Rightarrow> string \<Rightarrow> error + (loan \<times> db)" where
  "updateLoanStatus s e loanId st uid notes =
     (if st \<notin> set [''APPROVED'', ''REJECTED'']
      then Inl (HttpError 400 ''Invalid status transition'')
      else
        case find (\<lambda>l. l_id l = loanId) (loans s) of
          None \<Rightarrow> Inl RecordNotFound
        | Some old \<Rightarrow>
            let data = (\<lambda>l. l\<lparr>l_status := st, l_bankerId := Some uid, l_updatedAt := clock e\<rparr>);
                s1 = s\<lparr>loans := map (\<lambda>l. if l_id l = loanId then data l else l) (loans s)\<rparr>;
                action = (if st = ''APPROVED'' then ''LOAN_APPROVED'' else ''LOAN_REJECTED'');
                s2 = createAuditLog s1 e loanId action uid notes
            in Inr (data old, s2))"

section \<open>KYC service\<close>

text \<open>
  The environment variables the service reads. \<open>KYC_MAX_FILE_SIZE\<close> holds the number
  \<open>parseInt\<close> reads from the variable, \<open>None\<close> when it is unset or empty.
\<close>

record config =
  CLOUDINARY_CLOUD_NAME :: string
  KYC_MAX_FILE_SIZE :: "int option"
  KYC_ALLOWED_TYPES :: "string option"

text \<open>\<open>str.split(c)\<close> for a one-character separator.\<close>

fun split_on :: "char \<Rightarrow> string \<Rightarrow> string list" where
  "split_on c [] = [Nil]"
| "split_on c (x # xs) =
     (if x = c then [] # split_on c xs
      else (case split_on c xs of [] \<Rightarrow> [x] # [] | w # ws \<Rightarrow> (x # w) # ws))"

definition kyc_max_file_size :: "config \<Rightarrow> int" where
  "kyc_max_file_size cfg = (case KYC_MAX_FILE_SIZE cfg of None \<Rightarrow> 5242880 | Some n \<Rightarrow> n)"

definition kyc_allowed_types :: "config \<Rightarrow> string list" where
  "kyc_allowed_types cfg =
     split_on CHR '',''
       (if truthy (KYC_ALLOWED_TYPES cfg) then the (KYC_ALLOWED_TYPES cfg)
        else ''image/jpeg,image/png,application/pdf'')"

definition cloudinary_url :: "config \<Rightarrow> string \<Rightarrow> string" where
  "cloudinary_url cfg publicId =
     ''https://res.cloudinary.com/'' @ CLOUDINARY_CLOUD_NAME cfg @ ''/image/upload/'' @ publicId"




text \<open>
  \<open>completeUpload\<close>: the size check, then the content-type check, then the update of the
  row with the given id. The \<open>details\<close> string handed to the audit helper (the size and
  content type in words) only reaches the logger and is abbreviated here.
\<close>

definition completeUpload ::
    "db \<Rightarrow> config \<Rightarrow> env \<Rightarrow> string \<Rightarrow> string \<Rightarrow> int \<Rightarrow> string \<Rightarrow> error + (kyc_document \<times> db)" where
  "completeUpload s cfg e kycDocId publicId fileSize contentType =
     (if fileSize > kyc_max_file_size cfg
      then Inl (HttpError 413 ''File size exceeds 5MB limit'')
      else if contentType \<notin> set (kyc_allowed_types cfg)
      then Inl (HttpError 415 ''Invalid file type. Only JPG, PNG, PDF allowed'')
      else
        case find (\<lambda>d. d_id d = kycDocId) (kycDocuments s) of
          None \<Rightarrow> Inl RecordNotFound
        | Some old \<Rightarrow>
            let data = (\<lambda>d. d\<lparr>d_url := Some (cloudinary_url cfg publicId),
                              d_status := ''PENDING'', d_verifiedBy := None\<rparr>);
                s1 = s\<lparr>kycDocuments :=
                         map (\<lambda>d. if d_id d = kycDocId then data d else d) (kycDocuments s)\<rparr>;
                s2 = createKYCAuditLog s1 e kycDocId ''DOCUMENT_UPLOADED'' None ''File uploaded''
            in Inr (data old, s2))"

record verify_result =
  vr_kycDoc :: kyc_document
  vr_action :: string
  vr_message :: string

definition verifyKYCDocument ::
    "db \<Rightarrow> env \<Rightarrow> string \<Rightarrow> string \<Rightarrow> string \<Rightarrow> string \<Rightarrow> error + (verify_result \<times> db)" where
  "verifyKYCDocument s e kycDocId st bankerId notes =
     (if st \<notin> set [''VERIFIED'', ''REJECTED'']
      then Inl (HttpError 400 ''Status must be VERIFIED or REJECTED'')
      else
        case find (\<lambda>d. d_id d = kycDocId) (kycDocuments s) of
          None \<Rightarrow> Inl RecordNotFound
        | Some old \<Rightarrow>
            let data = (\<lambda>d. d\<lparr>d_status := st,
                              d_verifiedBy := (if st = ''VERIFIED'' then Some bankerId else None)\<rparr>);
                s1 = s\<lparr>kycDocuments :=
                         map (\<lambda>d. if d_id d = kycDocId then data d else d) (kycDocuments s)\<rparr>;
                action = (if st = ''VERIFIED'' then ''KYC_VERIFIED'' else ''KYC_REJECTED'');
                s2 = createKYCAuditLog s1 e kycDocId action (Some bankerId) notes
            in Inr (\<lparr>vr_kycDoc = data old,
                     vr_action = action,
                     vr_message = (if st = ''VERIFIED'' then ''Document verified successfully''
                                   else ''Document rejected: '' @ notes)\<rparr>, s2))"


text \<open>
  What the caller of a ledger operation observes apart from the audit table: the error or
  the returned value, and the loan and document tables.
\<close>

definition outcome :: "error + ('a \<times> db) \<Rightarrow> error + ('a \<times> loan list \<times> kyc_document list)" where
  "outcome r = (case r of Inl err \<Rightarrow> Inl err
                | Inr (x, s) \<Rightarrow> Inr (x, loans s, kycDocuments s))"

section \<open>Required documents\<close>

lemma distinct_spread_Set: "distinct (spread_Set xs)"
  by (simp add: spread_Set_def)

lemma set_spread_Set: "set (spread_Set xs) = set xs"
  by (simp add: spread_Set_def)

lemma distinct_baseRequirements: "distinct (baseRequirements r)"
  by (cases r) simp_all

lemma map_r_type_getRequiredDocuments:
  "map r_type (getRequiredDocuments r t) = required_types r t"
  by (simp add: getRequiredDocuments_def comp_def)

text \<open>
  C10. \<open>getRequiredDocuments\<close> is a function of the role and the loan type alone (it reads
  no store, clock or configuration, so equal arguments give equal results). For every
  role and every loan type, absent or present, the document types of its result are
  pairwise distinct, and they include every type required for the role without a loan
  type.
\<close>

theorem getRequiredDocuments_distinct_superset:
  "distinct (map r_type (getRequiredDocuments r t)) \<and>
   set (map r_type (getRequiredDocuments r None)) \<subseteq> set (map r_type (getRequiredDocuments r t))"
proof -
  have d: "distinct (required_types r t)"
    by (cases t) (simp_all add: required_types_def distinct_baseRequirements distinct_spread_Set)
  have s: "set (required_types r None) \<subseteq> set (required_types r t)"
    by (cases t) (simp_all add: required_types_def set_spread_Set)
  show ?thesis
    unfolding map_r_type_getRequiredDocuments using d s by simp
qed

section \<open>Double-precision rounding\<close>













section \<open>KYC completion\<close>

















section \<open>Access to a loan\<close>

text \<open>
  C1, as the code has it. \<open>getLoanById\<close> fails with 404 when no loan has the given id.
  For the stored loan with that id it returns the loan when the requester's id is the
  loan's applicant, the loan's recorded merchant, or, being non-empty, the loan's recorded
  \<open>bankerId\<close>; in every other case it fails with 403. The requester's role is not an
  argument of the service, and \<open>LoanController.getStatus\<close> passes the requester's id
  only, so the outcome is the same for every role of the requester.
\<close>

theorem getLoanById_access:
  "((\<forall>l \<in> set (loans s). l_id l \<noteq> loanId) \<longrightarrow>
      getLoanById s loanId uid = Inl (HttpError 404 ''Loan not found'')) \<and>
   (find (\<lambda>l. l_id l = loanId) (loans s) = Some loan \<longrightarrow>
      (if l_applicantId loan = uid \<or> l_merchantId loan = Some uid \<or>
          (uid \<noteq> [] \<and> l_bankerId loan = Some uid)
       then \<exists>d. getLoanById s loanId uid = Inr d \<and> ld_loan d = loan
       else getLoanById s loanId uid = Inl (HttpError 403 ''Unauthorized access to loan''))) \<and>
   LoanController_getStatus s \<lparr>userId = uid, role = r\<rparr> loanId = getLoanById s loanId uid"
proof -
  have nf: "(\<forall>l \<in> set (loans s). l_id l \<noteq> loanId) \<Longrightarrow>
      find (\<lambda>l. l_id l = loanId) (loans s) = None"
    by (simp add: find_None_iff)
  show ?thesis
    using nf by (auto simp: getLoanById_def LoanController_getStatus_def Let_def)
qed

text \<open>
  Witness for C1: the recorded banker of a decided loan reads it.
\<close>

theorem getLoanById_access_witness:
  "\<exists>d. getLoanById
     \<lparr>loans = [\<lparr>l_id = ''loan-1'', l_type = PERSONAL, l_amount = 50000, l_status = ''APPROVED'',
                l_applicantId = ''cust-1'', l_merchantId = None, l_bankerId = Some ''banker-1'',
                l_createdAt = 10, l_updatedAt = 20\<rparr>],
      kycDocuments = [], auditLogs = []\<rparr> ''loan-1'' ''banker-1'' = Inr d
     \<and> l_applicantId (ld_loan d) = ''cust-1''"
proof -
  let ?L = "\<lparr>l_id = ''loan-1'', l_type = PERSONAL, l_amount = 50000, l_status = ''APPROVED'',
                l_applicantId = ''cust-1'', l_merchantId = None, l_bankerId = Some ''banker-1'',
                l_createdAt = 10, l_updatedAt = 20\<rparr>"
  let ?s = "\<lparr>loans = [?L], kycDocuments = [], auditLogs = []\<rparr>"
  have f: "find (\<lambda>l. l_id l = ''loan-1'') (loans ?s) = Some ?L"
    by simp
  have a: "l_applicantId ?L = ''banker-1'' \<or> l_merchantId ?L = Some ''banker-1'' \<or>
          (''banker-1'' \<noteq> [] \<and> l_bankerId ?L = Some ''banker-1'')"
    by simp
  from getLoanById_access [of ?s "''loan-1''" "''banker-1''" ?L BANKER] f a
  have "\<exists>d. getLoanById ?s ''loan-1'' ''banker-1'' = Inr d \<and> ld_loan d = ?L"
    by presburger
  then obtain d where "getLoanById ?s ''loan-1'' ''banker-1'' = Inr d" and "ld_loan d = ?L"
    by blast
  then have "getLoanById ?s ''loan-1'' ''banker-1'' = Inr d \<and> l_applicantId (ld_loan d) = ''cust-1''"
    by simp
  then show ?thesis by blast
qed

text \<open>
  Counterexample to C1 as stated: a principal with role BANKER who is not the loan's
  recorded \<open>bankerId\<close> (the loan is still PENDING, so no banker is recorded) is refused
  with 403.
\<close>

theorem getStatus_banker_counterexample:
  "LoanController_getStatus
     \<lparr>loans = [\<lparr>l_id = ''loan-1'', l_type = PERSONAL, l_amount = 50000, l_status = ''PENDING'',
                l_applicantId = ''cust-1'', l_merchantId = None, l_bankerId = None,
                l_createdAt = 10, l_updatedAt = 10\<rparr>],
      kycDocuments = [], auditLogs = []\<rparr>
     \<lparr>userId = ''banker-1'', role = BANKER\<rparr> ''loan-1''
   = Inl (HttpError 403 ''Unauthorized access to loan'')"
  by (simp add: LoanController_getStatus_def getLoanById_def)

section \<open>The banker's loan list\<close>

lemma sorted_desc_sort_key:
  "sorted_wrt (\<lambda>a b. l_createdAt b \<le> l_createdAt a) (sort_key (\<lambda>l. - int (l_createdAt l)) xs)"
proof -
  have "sorted (map (\<lambda>l. - int (l_createdAt l)) (sort_key (\<lambda>l. - int (l_createdAt l)) xs))"
    by (rule sorted_sort_key)
  then show ?thesis
    by (simp add: sorted_wrt_map)
qed

lemma sorted_wrt_prisma_take:
  "sorted_wrt R xs \<Longrightarrow> sorted_wrt R (prisma_take n xs)"
  by (simp add: prisma_take_def sorted_wrt_take sorted_wrt_drop)

lemma set_prisma_take: "set (prisma_take n xs) \<subseteq> set xs"
  by (simp add: prisma_take_def set_take_subset set_drop_subset)

lemma length_prisma_take: "length (prisma_take n xs) = min (nat \<bar>n\<bar>) (length xs)"
  by (auto simp: prisma_take_def min_def)

lemma banker_where:
  "\<exists>w. getUserLoans s uid BANKER f
          = findMany_loans s w (case f_limit f of None \<Rightarrow> 20 | Some n \<Rightarrow> if n = 0 then 20 else n) \<and>
       where_matches w =
         (\<lambda>l. l_status l = (case f_status f of None \<Rightarrow> ''PENDING''
                             | Some st \<Rightarrow> if st = [] then ''PENDING'' else st) \<and>
              (case f_type f of None \<Rightarrow> True | Some t \<Rightarrow> l_type l = t) \<and>
              (case f_minAmount f of None \<Rightarrow> True | Some m \<Rightarrow> m = 0 \<or> m \<le> l_amount l))"
proof -
  let ?w0 = "where_empty\<lparr>w_status := Some ''PENDING''\<rparr>"
  let ?w1 = "if truthy (f_status f) then ?w0\<lparr>w_status := f_status f\<rparr> else ?w0"
  let ?w2 = "if f_type f \<noteq> None then ?w1\<lparr>w_type := f_type f\<rparr> else ?w1"
  let ?w3 = "if f_minAmount f \<noteq> None \<and> f_minAmount f \<noteq> Some 0
             then ?w2\<lparr>w_amount_gte := f_minAmount f\<rparr> else ?w2"
  have a: "getUserLoans s uid BANKER f
       = findMany_loans s ?w3 (case f_limit f of None \<Rightarrow> 20 | Some n \<Rightarrow> if n = 0 then 20 else n)"
    by (simp add: getUserLoans_def Let_def)
  have b: "where_matches ?w3 =
         (\<lambda>l. l_status l = (case f_status f of None \<Rightarrow> ''PENDING''
                             | Some st \<Rightarrow> if st = [] then ''PENDING'' else st) \<and>
              (case f_type f of None \<Rightarrow> True | Some t \<Rightarrow> l_type l = t) \<and>
              (case f_minAmount f of None \<Rightarrow> True | Some m \<Rightarrow> m = 0 \<or> m \<le> l_amount l))"
    by (rule ext, cases "f_status f"; cases "f_type f"; cases "f_minAmount f")
       (auto simp: where_matches_def where_empty_def)
  from a b show ?thesis by blast
qed

text \<open>
  C2, as the code has it. For a BANKER the loans in scope are the stored loans whose status
  is the status filter when one is supplied (non-empty) and PENDING otherwise: a supplied
  status filter takes the place of the PENDING scope. The type filter and a non-zero minimum
  amount are conjoined with that. With the loans in scope ordered newest first, the list
  is the first \<open>n\<close> of them for a positive limit \<open>n\<close>, the first 20 when the limit is absent,
  not a number or 0, and the last \<open>n\<close> of them (the oldest, still newest first) for a
  negative limit \<open>-n\<close>. So every listed loan is in scope, the list is ordered newest first,
  and its length is the smaller of that bound and the number of loans in scope. The list
  does not depend on the banker's own id.
\<close>

theorem getUserLoans_banker:
  "getUserLoans s uid BANKER f =
     (let n = (case f_limit f of None \<Rightarrow> 20 | Some n \<Rightarrow> if n = 0 then 20 else n);
          newest_first =
            sort_key (\<lambda>l. - int (l_createdAt l))
              (filter
                (\<lambda>l. l_status l = (case f_status f of None \<Rightarrow> ''PENDING''
                                    | Some st \<Rightarrow> if st = [] then ''PENDING'' else st) \<and>
                     (case f_type f of None \<Rightarrow> True | Some t \<Rightarrow> l_type l = t) \<and>
                     (case f_minAmount f of None \<Rightarrow> True | Some m \<Rightarrow> m = 0 \<or> m \<le> l_amount l))
                (loans s))
      in if 0 \<le> n then take (nat n) newest_first
         else drop (length newest_first - nat (- n)) newest_first) \<and>
   (\<forall>l \<in> set (getUserLoans s uid BANKER f).
      l \<in> set (loans s) \<and>
      l_status l = (case f_status f of None \<Rightarrow> ''PENDING''
                    | Some st \<Rightarrow> if st = [] then ''PENDING'' else st) \<and>
      (case f_type f of None \<Rightarrow> True | Some t \<Rightarrow> l_type l = t) \<and>
      (case f_minAmount f of None \<Rightarrow> True | Some m \<Rightarrow> m = 0 \<or> m \<le> l_amount l)) \<and>
   sorted_wrt (\<lambda>a b. l_createdAt b \<le> l_createdAt a) (getUserLoans s uid BANKER f) \<and>
   length (getUserLoans s uid BANKER f)
     = min (nat \<bar>case f_limit f of None \<Rightarrow> 20 | Some n \<Rightarrow> if n = 0 then 20 else n\<bar>)
           (length (filter
              (\<lambda>l. l_status l = (case f_status f of None \<Rightarrow> ''PENDING''
                                  | Some st \<Rightarrow> if st = [] then ''PENDING'' else st) \<and>
                   (case f_type f of None \<Rightarrow> True | Some t \<Rightarrow> l_type l = t) \<and>
                   (case f_minAmount f of None \<Rightarrow> True | Some m \<Rightarrow> m = 0 \<or> m \<le> l_amount l))
              (loans s))) \<and>
   getUserLoans s uid BANKER f = getUserLoans s uid' BANKER f"
proof -
  define P where "P = (\<lambda>l::loan. l_status l = (case f_status f of None \<Rightarrow> ''PENDING''
                                  | Some st \<Rightarrow> if st = [] then ''PENDING'' else st) \<and>
                   (case f_type f of None \<Rightarrow> True | Some t \<Rightarrow> l_type l = t) \<and>
                   (case f_minAmount f of None \<Rightarrow> True | Some m \<Rightarrow> m = 0 \<or> m \<le> l_amount l))"
  define lim where "lim = (case f_limit f of None \<Rightarrow> 20 | Some n \<Rightarrow> if n = 0 then 20 else n)"
  define L where "L = sort_key (\<lambda>l. - int (l_createdAt l)) (filter P (loans s))"
  obtain w where w: "getUserLoans s uid BANKER f = findMany_loans s w lim"
      and m: "where_matches w = P"
    using banker_where [of s uid f] unfolding P_def lim_def by blast
  obtain w' where w': "getUserLoans s uid' BANKER f = findMany_loans s w' lim"
      and m': "where_matches w' = P"
    using banker_where [of s uid' f] unfolding P_def lim_def by blast
  have r: "getUserLoans s uid BANKER f = prisma_take lim L"
    unfolding w findMany_loans_def m L_def ..
  have 0: "getUserLoans s uid BANKER f =
             (if 0 \<le> lim then take (nat lim) L else drop (length L - nat (- lim)) L)"
    unfolding r prisma_take_def ..
  have "set (getUserLoans s uid BANKER f) \<subseteq> set L"
    unfolding r by (rule set_prisma_take)
  then have 1: "\<forall>l \<in> set (getUserLoans s uid BANKER f). l \<in> set (loans s) \<and> P l"
    unfolding L_def by auto
  have 2: "sorted_wrt (\<lambda>a b. l_createdAt b \<le> l_createdAt a) (getUserLoans s uid BANKER f)"
    unfolding r L_def by (intro sorted_wrt_prisma_take sorted_desc_sort_key)
  have 3: "length (getUserLoans s uid BANKER f) = min (nat \<bar>lim\<bar>) (length (filter P (loans s)))"
    unfolding r length_prisma_take L_def by simp
  have 4: "getUserLoans s uid BANKER f = getUserLoans s uid' BANKER f"
    unfolding w w' findMany_loans_def m m' ..
  from 0 1 2 3 4 show ?thesis
    unfolding P_def lim_def L_def Let_def by blast
qed

text \<open>
  Witness for C2: of three stored loans, the one PENDING BUSINESS loan of at least 1000 is
  what the banker's list with these filters holds.
\<close>

theorem getUserLoans_banker_witness:
  "length (getUserLoans
     \<lparr>loans = [\<lparr>l_id = ''loan-1'', l_type = PERSONAL, l_amount = 50000, l_status = ''PENDING'',
                l_applicantId = ''cust-1'', l_merchantId = None, l_bankerId = None,
                l_createdAt = 10, l_updatedAt = 10\<rparr>,
               \<lparr>l_id = ''loan-2'', l_type = BUSINESS, l_amount = 90000, l_status = ''APPROVED'',
                l_applicantId = ''cust-2'', l_merchantId = None, l_bankerId = Some ''banker-1'',
                l_createdAt = 30, l_updatedAt = 40\<rparr>,
               \<lparr>l_id = ''loan-3'', l_type = BUSINESS, l_amount = 70000, l_status = ''PENDING'',
                l_applicantId = ''cust-2'', l_merchantId = None, l_bankerId = None,
                l_createdAt = 50, l_updatedAt = 50\<rparr>],
      kycDocuments = [], auditLogs = []\<rparr>
     ''banker-2'' BANKER
     \<lparr>f_status = None, f_type = Some BUSINESS, f_minAmount = Some 1000, f_limit = Some 10\<rparr>)
   = 1"
proof -
  let ?s = "\<lparr>loans = [\<lparr>l_id = ''loan-1'', l_type = PERSONAL, l_amount = 50000, l_status = ''PENDING'',
                l_applicantId = ''cust-1'', l_merchantId = None, l_bankerId = None,
                l_createdAt = 10, l_updatedAt = 10\<rparr>,
               \<lparr>l_id = ''loan-2'', l_type = BUSINESS, l_amount = 90000, l_status = ''APPROVED'',
                l_applicantId = ''cust-2'', l_merchantId = None, l_bankerId = Some ''banker-1'',
                l_createdAt = 30, l_updatedAt = 40\<rparr>,
               \<lparr>l_id = ''loan-3'', l_type = BUSINESS, l_amount = 70000, l_status = ''PENDING'',
                l_applicantId = ''cust-2'', l_merchantId = None, l_bankerId = None,
                l_createdAt = 50, l_updatedAt = 50\<rparr>],
      kycDocuments = [], auditLogs = []\<rparr>"
  let ?f = "\<lparr>f_status = None, f_type = Some BUSINESS, f_minAmount = Some 1000, f_limit = Some 10\<rparr>"
  from getUserLoans_banker [of ?s "''banker-2''" ?f "''banker-2''"]
  have "length (getUserLoans ?s ''banker-2'' BANKER ?f)
     = min (nat \<bar>case f_limit ?f of None \<Rightarrow> 20 | Some n \<Rightarrow> if n = 0 then 20 else n\<bar>)
           (length (filter
              (\<lambda>l. l_status l = (case f_status ?f of None \<Rightarrow> ''PENDING''
                                  | Some st \<Rightarrow> if st = [] then ''PENDING'' else st) \<and>
                   (case f_type ?f of None \<Rightarrow> True | Some t \<Rightarrow> l_type l = t) \<and>
                   (case f_minAmount ?f of None \<Rightarrow> True | Some m \<Rightarrow> m = 0 \<or> m \<le> l_amount l))
              (loans ?s)))"
    by blast
  then show ?thesis by simp
qed

text \<open>
  Counterexamples to C2 as stated. A banker who filters on status APPROVED is shown an
  APPROVED loan, so the filter has replaced the PENDING scope instead of narrowing it.
  With limit 0 both PENDING loans are listed, so the list is not capped at 0. With limit
  \<open>-1\<close> and two PENDING loans the older one is listed, not the newer.
\<close>

theorem getUserLoans_banker_counterexample:
  "map l_status (getUserLoans
     \<lparr>loans = [\<lparr>l_id = ''loan-1'', l_type = PERSONAL, l_amount = 50000, l_status = ''APPROVED'',
                l_applicantId = ''cust-1'', l_merchantId = None, l_bankerId = Some ''banker-1'',
                l_createdAt = 10, l_updatedAt = 20\<rparr>],
      kycDocuments = [], auditLogs = []\<rparr>
     ''banker-2'' BANKER
     \<lparr>f_status = Some ''APPROVED'', f_type = None, f_minAmount = None, f_limit = Some 10\<rparr>)
   = [''APPROVED'']
   \<and> map l_id (getUserLoans
     \<lparr>loans = [\<lparr>l_id = ''loan-1'', l_type = PERSONAL, l_amount = 50000, l_status = ''PENDING'',
                l_applicantId = ''cust-1'', l_merchantId = None, l_bankerId = None,
                l_createdAt = 10, l_updatedAt = 10\<rparr>,
               \<lparr>l_id = ''loan-2'', l_type = BUSINESS, l_amount = 70000, l_status = ''PENDING'',
                l_applicantId = ''cust-2'', l_merchantId = None, l_bankerId = None,
                l_createdAt = 30, l_updatedAt = 30\<rparr>],
      kycDocuments = [], auditLogs = []\<rparr>
     ''banker-2'' BANKER
     \<lparr>f_status = None, f_type = None, f_minAmount = None, f_limit = Some 0\<rparr>)
   = [''loan-2'', ''loan-1'']
   \<and> map l_id (getUserLoans
     \<lparr>loans = [\<lparr>l_id = ''loan-1'', l_type = PERSONAL, l_amount = 50000, l_status = ''PENDING'',
                l_applicantId = ''cust-1'', l_merchantId = None, l_bankerId = None,
                l_createdAt = 10, l_updatedAt = 10\<rparr>,
               \<lparr>l_id = ''loan-2'', l_type = BUSINESS, l_amount = 70000, l_status = ''PENDING'',
                l_applicantId = ''cust-2'', l_merchantId = None, l_bankerId = None,
                l_createdAt = 30, l_updatedAt = 30\<rparr>],
      kycDocuments = [], auditLogs = []\<rparr>
     ''banker-2'' BANKER
     \<lparr>f_status = None, f_type = None, f_minAmount = None, f_limit = Some (- 1)\<rparr>)
   = [''loan-1'']"
  by (simp add: getUserLoans_def findMany_loans_def prisma_take_def where_matches_def where_empty_def)

section \<open>Loan creation\<close>

text \<open>
  C3. A MERCHANT who applies with a merchant reference (a UUID after validation, so a
  non-empty string) creates a loan whose \<open>merchantId\<close> is the merchant's own user id,
  whatever the reference is; a MERCHANT who applies without a reference creates a loan
  with \<open>merchantId\<close> null; a CUSTOMER creates a loan with \<open>merchantId\<close> null whatever
  the request body holds. In each case the application succeeds and the created row is
  the one appended to the loan table. User ids are non-empty.
\<close>

theorem apply_merchantId:
  "(role u = MERCHANT \<and> truthy (la_merchantId d) \<and> userId u \<noteq> [] \<longrightarrow>
      (\<exists>resp s'. LoanController_apply s e u d = Inr (resp, s') \<and>
          l_merchantId (ar_loan resp) = Some (userId u) \<and>
          loans s' = loans s @ [ar_loan resp])) \<and>
   (role u = MERCHANT \<and> la_merchantId d = None \<longrightarrow>
      (\<exists>resp s'. LoanController_apply s e u d = Inr (resp, s') \<and>
          l_merchantId (ar_loan resp) = None \<and>
          loans s' = loans s @ [ar_loan resp])) \<and>
   (role u = CUSTOMER \<longrightarrow>
      (\<exists>resp s'. LoanController_apply s e u d = Inr (resp, s') \<and>
          l_merchantId (ar_loan resp) = None \<and>
          loans s' = loans s @ [ar_loan resp]))"
  by (auto simp: LoanController_apply_def createLoan_def createAuditLog_def Let_def)

text \<open>
  Witness for C3: merchant \<open>merchant-1\<close> applies with the reference \<open>cust-9\<close>.
\<close>

theorem apply_merchantId_witness:
  "\<exists>resp s'. LoanController_apply
       \<lparr>loans = [], kycDocuments = [], auditLogs = []\<rparr>
       \<lparr>clock = 100, nextId = ''loan-1'', nextUuid = ''uuid-1'', auditLogCreateOk = True\<rparr>
       \<lparr>userId = ''merchant-1'', role = MERCHANT\<rparr>
       \<lparr>la_type = BUSINESS, la_amount = 50000, la_merchantId = Some ''cust-9'', la_purpose = None\<rparr>
     = Inr (resp, s') \<and> l_merchantId (ar_loan resp) = Some ''merchant-1''"
proof -
  let ?s = "\<lparr>loans = [], kycDocuments = [], auditLogs = []\<rparr>"
  let ?e = "\<lparr>clock = 100, nextId = ''loan-1'', nextUuid = ''uuid-1'', auditLogCreateOk = True\<rparr>"
  let ?u = "\<lparr>userId = ''merchant-1'', role = MERCHANT\<rparr>"
  let ?d = "\<lparr>la_type = BUSINESS, la_amount = 50000, la_merchantId = Some ''cust-9'', la_purpose = None\<rparr>"
  have h: "role ?u = MERCHANT \<and> truthy (la_merchantId ?d) \<and> userId ?u \<noteq> []"
    by simp
  from apply_merchantId [of ?u ?d ?s ?e] h
  have "\<exists>resp s'. LoanController_apply ?s ?e ?u ?d = Inr (resp, s') \<and>
          l_merchantId (ar_loan resp) = Some (userId ?u) \<and>
          loans s' = loans ?s @ [ar_loan resp]"
    by blast
  then show ?thesis by auto
qed

section \<open>Deciding a loan\<close>

lemma find_map_update:
  "find (\<lambda>l. l_id l = i) xs = Some old \<Longrightarrow> l_id (g old) = i \<Longrightarrow>
   find (\<lambda>l. l_id l = i) (map (\<lambda>l. if l_id l = i then g l else l) xs) = Some (g old)"
  by (induction xs) (auto split: if_splits)

text \<open>
  C7. \<open>updateLoanStatus\<close> fails with status 400 exactly when the decision is neither
  APPROVED nor REJECTED. For a valid decision on a stored loan, whatever the loan's current
  status, it succeeds: the returned and stored row has the decision as status, the deciding
  banker as \<open>bankerId\<close> and the current time as \<open>updatedAt\<close>, and the audit table gains
  one entry for the loan and the banker, tagged LOAN_APPROVED or LOAN_REJECTED (it gains
  nothing when the audit store rejects the write).
\<close>

theorem updateLoanStatus_decide:
  "((\<exists>msg. updateLoanStatus s e loanId st uid notes = Inl (HttpError 400 msg))
      \<longleftrightarrow> st \<notin> {''APPROVED'', ''REJECTED''}) \<and>
   (st \<in> {''APPROVED'', ''REJECTED''} \<and> find (\<lambda>l. l_id l = loanId) (loans s) = Some old \<longrightarrow>
      (\<exists>s'. updateLoanStatus s e loanId st uid notes
               = Inr (old\<lparr>l_status := st, l_bankerId := Some uid, l_updatedAt := clock e\<rparr>, s') \<and>
            find (\<lambda>l. l_id l = loanId) (loans s')
               = Some (old\<lparr>l_status := st, l_bankerId := Some uid, l_updatedAt := clock e\<rparr>) \<and>
            auditLogs s' =
              (if auditLogCreateOk e
               then auditLogs s @
                    [\<lparr>a_loanId = Some loanId,
                      a_action = (if st = ''APPROVED'' then ''LOAN_APPROVED'' else ''LOAN_REJECTED''),
                      a_actorId = Some uid, a_createdAt = clock e\<rparr>]
               else auditLogs s)))"
proof -
  have a: "(\<exists>msg. updateLoanStatus s e loanId st uid notes = Inl (HttpError 400 msg))
      \<longleftrightarrow> st \<notin> {''APPROVED'', ''REJECTED''}"
    by (auto simp: updateLoanStatus_def Let_def split: option.splits)
  have b: "st \<in> {''APPROVED'', ''REJECTED''} \<Longrightarrow> find (\<lambda>l. l_id l = loanId) (loans s) = Some old \<Longrightarrow>
      (\<exists>s'. updateLoanStatus s e loanId st uid notes
               = Inr (old\<lparr>l_status := st, l_bankerId := Some uid, l_updatedAt := clock e\<rparr>, s') \<and>
            find (\<lambda>l. l_id l = loanId) (loans s')
               = Some (old\<lparr>l_status := st, l_bankerId := Some uid, l_updatedAt := clock e\<rparr>) \<and>
            auditLogs s' =
              (if auditLogCreateOk e
               then auditLogs s @
                    [\<lparr>a_loanId = Some loanId,
                      a_action = (if st = ''APPROVED'' then ''LOAN_APPROVED'' else ''LOAN_REJECTED''),
                      a_actorId = Some uid, a_createdAt = clock e\<rparr>]
               else auditLogs s))"
  proof -
    assume v: "st \<in> {''APPROVED'', ''REJECTED''}"
      and f: "find (\<lambda>l. l_id l = loanId) (loans s) = Some old"
    from f have i: "l_id old = loanId"
      by (auto simp: find_Some_iff)
    have g: "find (\<lambda>l. l_id l = loanId)
               (map (\<lambda>l. if l_id l = loanId
                          then l\<lparr>l_status := st, l_bankerId := Some uid, l_updatedAt := clock e\<rparr>
                          else l) (loans s))
             = Some (old\<lparr>l_status := st, l_bankerId := Some uid, l_updatedAt := clock e\<rparr>)"
      using find_map_update [OF f, of "\<lambda>l. l\<lparr>l_status := st, l_bankerId := Some uid, l_updatedAt := clock e\<rparr>"] i
      by simp
    show ?thesis
      using v f g by (auto simp: updateLoanStatus_def createAuditLog_def Let_def)
  qed
  from a b show ?thesis by blast
qed

text \<open>
  Witness for C7: a loan already APPROVED by \<open>banker-1\<close> is decided again, REJECTED by
  \<open>banker-2\<close>; the second decision succeeds and overwrites status and banker.
\<close>

theorem updateLoanStatus_decide_witness:
  "\<exists>s'. updateLoanStatus
      \<lparr>loans = [\<lparr>l_id = ''loan-1'', l_type = PERSONAL, l_amount = 50000, l_status = ''APPROVED'',
                 l_applicantId = ''cust-1'', l_merchantId = None, l_bankerId = Some ''banker-1'',
                 l_createdAt = 10, l_updatedAt = 20\<rparr>],
       kycDocuments = [], auditLogs = []\<rparr>
      \<lparr>clock = 100, nextId = ''x'', nextUuid = ''uuid-1'', auditLogCreateOk = True\<rparr>
      ''loan-1'' ''REJECTED'' ''banker-2'' ''second decision''
    = Inr (\<lparr>l_id = ''loan-1'', l_type = PERSONAL, l_amount = 50000, l_status = ''REJECTED'',
            l_applicantId = ''cust-1'', l_merchantId = None, l_bankerId = Some ''banker-2'',
            l_createdAt = 10, l_updatedAt = 100\<rparr>, s')
    \<and> auditLogs s' = [\<lparr>a_loanId = Some ''loan-1'', a_action = ''LOAN_REJECTED'',
                       a_actorId = Some ''banker-2'', a_createdAt = 100\<rparr>]"
proof -
  let ?L = "\<lparr>l_id = ''loan-1'', l_type = PERSONAL, l_amount = 50000, l_status = ''APPROVED'',
                 l_applicantId = ''cust-1'', l_merchantId = None, l_bankerId = Some ''banker-1'',
                 l_createdAt = 10, l_updatedAt = 20\<rparr>"
  let ?s = "\<lparr>loans = [?L], kycDocuments = [], auditLogs = []\<rparr>"
  let ?e = "\<lparr>clock = 100, nextId = ''x'', nextUuid = ''uuid-1'', auditLogCreateOk = True\<rparr>"
  have h: "''REJECTED'' \<in> {''APPROVED'', ''REJECTED''} \<and>
           find (\<lambda>l. l_id l = ''loan-1'') (loans ?s) = Some ?L"
    by simp
  from updateLoanStatus_decide
         [of ?s ?e "''loan-1''" "''REJECTED''" "''banker-2''" "''second decision''" ?L] h
  have "\<exists>s'. updateLoanStatus ?s ?e ''loan-1'' ''REJECTED'' ''banker-2'' ''second decision''
               = Inr (?L\<lparr>l_status := ''REJECTED'', l_bankerId := Some ''banker-2'',
                          l_updatedAt := clock ?e\<rparr>, s') \<and>
            find (\<lambda>l. l_id l = ''loan-1'') (loans s')
               = Some (?L\<lparr>l_status := ''REJECTED'', l_bankerId := Some ''banker-2'',
                           l_updatedAt := clock ?e\<rparr>) \<and>
            auditLogs s' =
              (if auditLogCreateOk ?e
               then auditLogs ?s @
                    [\<lparr>a_loanId = Some ''loan-1'',
                      a_action = (if ''REJECTED'' = ''APPROVED'' then ''LOAN_APPROVED'' else ''LOAN_REJECTED''),
                      a_actorId = Some ''banker-2'', a_createdAt = clock ?e\<rparr>]
               else auditLogs ?s)"
    by blast
  then obtain s' where
      r: "updateLoanStatus ?s ?e ''loan-1'' ''REJECTED'' ''banker-2'' ''second decision''
               = Inr (?L\<lparr>l_status := ''REJECTED'', l_bankerId := Some ''banker-2'',
                          l_updatedAt := clock ?e\<rparr>, s')"
    and a: "auditLogs s' =
              (if auditLogCreateOk ?e
               then auditLogs ?s @
                    [\<lparr>a_loanId = Some ''loan-1'',
                      a_action = (if ''REJECTED'' = ''APPROVED'' then ''LOAN_APPROVED'' else ''LOAN_REJECTED''),
                      a_actorId = Some ''banker-2'', a_createdAt = clock ?e\<rparr>]
               else auditLogs ?s)"
    by blast
  from r a have "updateLoanStatus ?s ?e ''loan-1'' ''REJECTED'' ''banker-2'' ''second decision''
    = Inr (\<lparr>l_id = ''loan-1'', l_type = PERSONAL, l_amount = 50000, l_status = ''REJECTED'',
            l_applicantId = ''cust-1'', l_merchantId = None, l_bankerId = Some ''banker-2'',
            l_createdAt = 10, l_updatedAt = 100\<rparr>, s')
    \<and> auditLogs s' = [\<lparr>a_loanId = Some ''loan-1'', a_action = ''LOAN_REJECTED'',
                       a_actorId = Some ''banker-2'', a_createdAt = 100\<rparr>]"
    by simp
  then show ?thesis by blast
qed

section \<open>Audit writes are best effort\<close>

text \<open>
  C8. For each operation that writes an audit entry (creating a loan, deciding a loan,
  finalising a KYC upload, verifying a KYC document), what the caller gets back and the
  loan and document tables are the same whether the audit store rejects the write or
  accepts it: the rejection is caught inside the audit helper and reaches neither the
  result nor the primary change. When the write is rejected on loan creation the audit
  table is left as it was.
\<close>

theorem audit_failure_not_propagated:
  "fst (createLoan s (e\<lparr>auditLogCreateOk := False\<rparr>) d uid) = fst (createLoan s (e\<lparr>auditLogCreateOk := True\<rparr>) d uid) \<and>
   loans (snd (createLoan s (e\<lparr>auditLogCreateOk := False\<rparr>) d uid))
     = loans (snd (createLoan s (e\<lparr>auditLogCreateOk := True\<rparr>) d uid)) \<and>
   auditLogs (snd (createLoan s (e\<lparr>auditLogCreateOk := False\<rparr>) d uid)) = auditLogs s \<and>
   outcome (updateLoanStatus s (e\<lparr>auditLogCreateOk := False\<rparr>) i st uid notes)
     = outcome (updateLoanStatus s (e\<lparr>auditLogCreateOk := True\<rparr>) i st uid notes) \<and>
   outcome (completeUpload s cfg (e\<lparr>auditLogCreateOk := False\<rparr>) k p sz ct)
     = outcome (completeUpload s cfg (e\<lparr>auditLogCreateOk := True\<rparr>) k p sz ct) \<and>
   outcome (verifyKYCDocument s (e\<lparr>auditLogCreateOk := False\<rparr>) k st uid notes)
     = outcome (verifyKYCDocument s (e\<lparr>auditLogCreateOk := True\<rparr>) k st uid notes)"
proof -
  have 1: "fst (createLoan s (e\<lparr>auditLogCreateOk := False\<rparr>) d uid) = fst (createLoan s (e\<lparr>auditLogCreateOk := True\<rparr>) d uid)"
    by (simp add: createLoan_def createAuditLog_def Let_def)
  have 2: "loans (snd (createLoan s (e\<lparr>auditLogCreateOk := False\<rparr>) d uid))
     = loans (snd (createLoan s (e\<lparr>auditLogCreateOk := True\<rparr>) d uid))"
    by (simp add: createLoan_def createAuditLog_def Let_def)
  have 3: "auditLogs (snd (createLoan s (e\<lparr>auditLogCreateOk := False\<rparr>) d uid)) = auditLogs s"
    by (simp add: createLoan_def createAuditLog_def Let_def)
  have 4: "outcome (updateLoanStatus s (e\<lparr>auditLogCreateOk := False\<rparr>) i st uid notes)
     = outcome (updateLoanStatus s (e\<lparr>auditLogCreateOk := True\<rparr>) i st uid notes)"
    by (simp add: updateLoanStatus_def createAuditLog_def outcome_def Let_def split: option.splits)
  have 5: "outcome (completeUpload s cfg (e\<lparr>auditLogCreateOk := False\<rparr>) k p sz ct)
     = outcome (completeUpload s cfg (e\<lparr>auditLogCreateOk := True\<rparr>) k p sz ct)"
    by (simp add: completeUpload_def createKYCAuditLog_def outcome_def Let_def split: option.splits)
  have 6: "outcome (verifyKYCDocument s (e\<lparr>auditLogCreateOk := False\<rparr>) k st uid notes)
     = outcome (verifyKYCDocument s (e\<lparr>auditLogCreateOk := True\<rparr>) k st uid notes)"
    by (simp add: verifyKYCDocument_def createKYCAuditLog_def outcome_def Let_def split: option.splits)
  from 1 2 3 4 5 6 show ?thesis by blast
qed

section \<open>Finalising an upload\<close>

lemma default_allowed_types:
  "split_on CHR '','' ''image/jpeg,image/png,application/pdf''
     = [''image/jpeg'', ''image/png'', ''application/pdf'']"
  by simp

lemma kyc_allowed_types_default:
  "\<not> truthy (KYC_ALLOWED_TYPES cfg) \<Longrightarrow>
   kyc_allowed_types cfg = [''image/jpeg'', ''image/png'', ''application/pdf'']"
  unfolding kyc_allowed_types_def by (simp only: if_False default_allowed_types)

lemma completeUpload_413:
  "(\<exists>msg. completeUpload s cfg e k p sz ct = Inl (HttpError 413 msg)) \<longleftrightarrow> sz > kyc_max_file_size cfg"
  by (auto simp: completeUpload_def Let_def split: option.splits)

lemma completeUpload_415:
  "(\<exists>msg. completeUpload s cfg e k p sz ct = Inl (HttpError 415 msg))
     \<longleftrightarrow> \<not> sz > kyc_max_file_size cfg \<and> ct \<notin> set (kyc_allowed_types cfg)"
  by (auto simp: completeUpload_def Let_def split: option.splits)

lemma completeUpload_ok:
  "\<not> sz > kyc_max_file_size cfg \<Longrightarrow> ct \<in> set (kyc_allowed_types cfg) \<Longrightarrow>
   find (\<lambda>d. d_id d = k) (kycDocuments s) = Some old \<Longrightarrow>
   \<exists>s'. completeUpload s cfg e k p sz ct
          = Inr (old\<lparr>d_url := Some (cloudinary_url cfg p), d_status := ''PENDING'',
                     d_verifiedBy := None\<rparr>, s')"
  by (simp add: completeUpload_def Let_def)

text \<open>
  C9. \<open>completeUpload\<close> fails with status 413 exactly when the file size exceeds the
  configured ceiling, and with status 415 exactly when the size passes that check (which
  comes first) and the content type is not in the configured allow-list. With the ceiling
  not configured it is 5242880: a size of 5242881 fails with 413, and a size of 5242880
  with an allowed content type, on a stored document, succeeds. With the allow-list not
  configured it is image/jpeg, image/png and application/pdf.
\<close>

theorem completeUpload_limits:
  "((\<exists>msg. completeUpload s cfg e k p sz ct = Inl (HttpError 413 msg))
       \<longleftrightarrow> sz > kyc_max_file_size cfg) \<and>
   ((\<exists>msg. completeUpload s cfg e k p sz ct = Inl (HttpError 415 msg))
       \<longleftrightarrow> \<not> sz > kyc_max_file_size cfg \<and> ct \<notin> set (kyc_allowed_types cfg)) \<and>
   (KYC_MAX_FILE_SIZE cfg = None \<longrightarrow>
       kyc_max_file_size cfg = 5242880 \<and>
       completeUpload s cfg e k p 5242881 ct = Inl (HttpError 413 ''File size exceeds 5MB limit'')) \<and>
   (\<not> truthy (KYC_ALLOWED_TYPES cfg) \<longrightarrow>
       kyc_allowed_types cfg = [''image/jpeg'', ''image/png'', ''application/pdf'']) \<and>
   (KYC_MAX_FILE_SIZE cfg = None \<and> ct \<in> set (kyc_allowed_types cfg) \<and>
    find (\<lambda>d. d_id d = k) (kycDocuments s) = Some old \<longrightarrow>
       (\<exists>s'. completeUpload s cfg e k p 5242880 ct
          = Inr (old\<lparr>d_url := Some (cloudinary_url cfg p), d_status := ''PENDING'',
                     d_verifiedBy := None\<rparr>, s')))"
proof -
  have m: "KYC_MAX_FILE_SIZE cfg = None \<Longrightarrow> kyc_max_file_size cfg = 5242880"
    by (simp add: kyc_max_file_size_def)
  have big: "KYC_MAX_FILE_SIZE cfg = None \<Longrightarrow>
       completeUpload s cfg e k p 5242881 ct = Inl (HttpError 413 ''File size exceeds 5MB limit'')"
    by (simp add: completeUpload_def kyc_max_file_size_def)
  have ok: "KYC_MAX_FILE_SIZE cfg = None \<Longrightarrow> ct \<in> set (kyc_allowed_types cfg) \<Longrightarrow>
    find (\<lambda>d. d_id d = k) (kycDocuments s) = Some old \<Longrightarrow>
       (\<exists>s'. completeUpload s cfg e k p 5242880 ct
          = Inr (old\<lparr>d_url := Some (cloudinary_url cfg p), d_status := ''PENDING'',
                     d_verifiedBy := None\<rparr>, s'))"
    using completeUpload_ok [where sz = 5242880 and cfg = cfg and ct = ct and k = k and s = s and old = old and e = e and p = p] m by simp
  from completeUpload_413 [of s cfg e k p sz ct] completeUpload_415 [of s cfg e k p sz ct]
    m big ok kyc_allowed_types_default [of cfg]
  show ?thesis by blast
qed

text \<open>
  Witness for C9: under the default configuration a PNG of exactly 5242880 bytes is
  accepted for a stored document.
\<close>

theorem completeUpload_limits_witness:
  "\<exists>s'. completeUpload
      \<lparr>loans = [],
       kycDocuments = [\<lparr>d_id = ''k1'', d_type = ''ID_PROOF'', d_url = Some ''u'',
                        d_status = ''UPLOADING'', d_userId = ''cust-1'', d_verifiedBy = None,
                        d_createdAt = 5\<rparr>],
       auditLogs = []\<rparr>
      \<lparr>CLOUDINARY_CLOUD_NAME = ''demo'', KYC_MAX_FILE_SIZE = None, KYC_ALLOWED_TYPES = None\<rparr>
      \<lparr>clock = 100, nextId = ''k2'', nextUuid = ''uuid-1'', auditLogCreateOk = True\<rparr>
      ''k1'' ''pub-1'' 5242880 ''image/png''
    = Inr (\<lparr>d_id = ''k1'', d_type = ''ID_PROOF'',
            d_url = Some ''https://res.cloudinary.com/demo/image/upload/pub-1'',
            d_status = ''PENDING'', d_userId = ''cust-1'', d_verifiedBy = None,
            d_createdAt = 5\<rparr>, s')"
proof -
  let ?old = "\<lparr>d_id = ''k1'', d_type = ''ID_PROOF'', d_url = Some ''u'',
                        d_status = ''UPLOADING'', d_userId = ''cust-1'', d_verifiedBy = None,
                        d_createdAt = 5\<rparr>"
  let ?s = "\<lparr>loans = [], kycDocuments = [?old], auditLogs = []\<rparr>"
  let ?cfg = "\<lparr>CLOUDINARY_CLOUD_NAME = ''demo'', KYC_MAX_FILE_SIZE = None, KYC_ALLOWED_TYPES = None\<rparr>"
  let ?e = "\<lparr>clock = 100, nextId = ''k2'', nextUuid = ''uuid-1'', auditLogCreateOk = True\<rparr>"
  note T = completeUpload_limits [of ?s ?cfg ?e "''k1''" "''pub-1''" 5242880 "''image/png''" ?old]
  have n: "KYC_MAX_FILE_SIZE ?cfg = None" by simp
  have t: "\<not> truthy (KYC_ALLOWED_TYPES ?cfg)" by simp
  from T t have a: "kyc_allowed_types ?cfg = [''image/jpeg'', ''image/png'', ''application/pdf'']"
    by blast
  have c: "''image/png'' \<in> set (kyc_allowed_types ?cfg)"
    unfolding a by simp
  have f: "find (\<lambda>d. d_id d = ''k1'') (kycDocuments ?s) = Some ?old" by simp
  from T n c f have "\<exists>s'. completeUpload ?s ?cfg ?e ''k1'' ''pub-1'' 5242880 ''image/png''
          = Inr (?old\<lparr>d_url := Some (cloudinary_url ?cfg ''pub-1''), d_status := ''PENDING'',
                     d_verifiedBy := None\<rparr>, s')"
    by blast
  then show ?thesis by (simp add: cloudinary_url_def)
qed

section \<open>Status of a decided KYC document\<close>










section \<open>Verifying a KYC document\<close>

text \<open>
  C6 at a concrete input. Banker \<open>banker-1\<close> verifies the PENDING document \<open>k1\<close>. The row's
  status becomes VERIFIED and \<open>verifiedBy\<close> the banker, and the action returned to the
  caller is KYC_VERIFIED; the audit entry written, however, carries the tag
  KYC_KYC_VERIFIED, because \<open>createKYCAuditLog\<close> puts the prefix \<open>KYC_\<close> before a tag
  that already has it.
\<close>

theorem verifyKYCDocument_audit_tag:
  "verifyKYCDocument
      \<lparr>loans = [],
       kycDocuments = [\<lparr>d_id = ''k1'', d_type = ''ID_PROOF'', d_url = Some ''u'',
                        d_status = ''PENDING'', d_userId = ''cust-1'', d_verifiedBy = None,
                        d_createdAt = 5\<rparr>],
       auditLogs = []\<rparr>
      \<lparr>clock = 100, nextId = ''k2'', nextUuid = ''uuid-1'', auditLogCreateOk = True\<rparr>
      ''k1'' ''VERIFIED'' ''banker-1'' ''ok''
   = Inr (\<lparr>vr_kycDoc = \<lparr>d_id = ''k1'', d_type = ''ID_PROOF'', d_url = Some ''u'',
                        d_status = ''VERIFIED'', d_userId = ''cust-1'',
                        d_verifiedBy = Some ''banker-1'', d_createdAt = 5\<rparr>,
           vr_action = ''KYC_VERIFIED'',
           vr_message = ''Document verified successfully''\<rparr>,
          \<lparr>loans = [],
           kycDocuments = [\<lparr>d_id = ''k1'', d_type = ''ID_PROOF'', d_url = Some ''u'',
                        d_status = ''VERIFIED'', d_userId = ''cust-1'',
                        d_verifiedBy = Some ''banker-1'', d_createdAt = 5\<rparr>],
           auditLogs = [\<lparr>a_loanId = None, a_action = ''KYC_KYC_VERIFIED'',
                         a_actorId = Some ''banker-1'', a_createdAt = 100\<rparr>]\<rparr>)"
  by (simp add: verifyKYCDocument_def createKYCAuditLog_def Let_def)

end
